theory Spec2Isabelle
  imports Complex_Main
begin

section \<open>Numbers and coordinates\<close>

text \<open>
  A JavaScript Number is modelled as a \<^typ>\<open>real\<close>: rounding error is abstracted, and the
  non-finite values appear only where the code can produce them from finite inputs
  (a division by zero or an operand that is \<^verbatim>\<open>undefined\<close>, see \<open>js_integer\<close>,
  \<open>js_number\<close> and \<open>js_distance\<close> below). A Date is its count of milliseconds, an
  \<^typ>\<open>int\<close>. A value that may be \<^verbatim>\<open>undefined\<close> or \<^verbatim>\<open>null\<close> is an option.
\<close>

record coordinate =
  latitude :: real
  longitude :: real

text \<open>\<^verbatim>\<open>toRadians(degrees) = degrees * (Math.PI / 180)\<close>\<close>

definition toRadians :: "real \<Rightarrow> real" where
  "toRadians degrees = degrees * (pi / 180)"

text \<open>
  \<^verbatim>\<open>Math.atan2(y, x)\<close> on finite arguments: the angle of the point \<open>(x, y)\<close>,
  in \<open>(-\<pi>, \<pi>]\<close>, and \<open>0\<close> at the origin.
\<close>

definition atan2 :: "real \<Rightarrow> real \<Rightarrow> real" where
  "atan2 y x =
     (if 0 < x then arctan (y / x)
      else if x < 0 then (if 0 \<le> y then arctan (y / x) + pi else arctan (y / x) - pi)
      else if 0 < y then pi / 2
      else if y < 0 then - (pi / 2)
      else 0)"

text \<open>
  The haversine formula of \<^verbatim>\<open>locationUtils.calculateDistance\<close>. The private
  \<^verbatim>\<open>calculateDistance\<close> of \<^verbatim>\<open>notificationUtils\<close> has the same text, with
  \<^verbatim>\<open>Math.toRadians\<close> defined as \<^verbatim>\<open>toRadians\<close> is; the location route computes the
  formula inline, which is modelled separately below.
\<close>

definition calculateDistance :: "coordinate \<Rightarrow> coordinate \<Rightarrow> real" where
  "calculateDistance point1 point2 =
     (let R = 6371;
          dLat = toRadians (latitude point2 - latitude point1);
          dLon = toRadians (longitude point2 - longitude point1);
          a = sin (dLat / 2) * sin (dLat / 2) +
              cos (toRadians (latitude point1)) * cos (toRadians (latitude point2)) *
              sin (dLon / 2) * sin (dLon / 2);
          c = 2 * atan2 (sqrt a) (sqrt (1 - a))
      in R * c)"

definition isWithinRadius :: "coordinate \<Rightarrow> coordinate \<Rightarrow> real \<Rightarrow> bool" where
  "isWithinRadius point1 point2 radiusInKm =
     (let distance = calculateDistance point1 point2 in distance \<le> radiusInKm)"

section \<open>Proximity and ETA engine (\<^verbatim>\<open>locationUtils\<close>)\<close>

text \<open>
  The result of \<^verbatim>\<open>Math.round(distance / averageSpeed * 60)\<close>. With a finite distance
  and a finite speed the quotient is finite unless the speed is \<open>0\<close>, where JavaScript
  yields \<^verbatim>\<open>Infinity\<close>, \<^verbatim>\<open>-Infinity\<close> or \<^verbatim>\<open>NaN\<close>; \<^verbatim>\<open>Math.round\<close> keeps those.
  \<^verbatim>\<open>Math.round\<close> rounds half up, as \<^const>\<open>round\<close> does.

  The doubles of the code are all the integers only below \<open>2^53\<close> in magnitude. The
  model follows the minutes as an integer in that range and records no value beyond
  it (\<open>Large\<close>, \<open>LargeNegative\<close>).
\<close>

datatype js_integer =
  Integer int | Large | LargeNegative | PlusInfinity | MinusInfinity | NaN

definition roundedMinutes :: "real \<Rightarrow> real \<Rightarrow> js_integer" where
  "roundedMinutes distanceKm averageSpeed =
     (if averageSpeed \<noteq> 0
      then (let n = round (distanceKm / averageSpeed * 60)
            in if 2 ^ 53 \<le> n then Large
               else if n \<le> - (2 ^ 53) then LargeNegative
               else Integer n)
      else if 0 < distanceKm then PlusInfinity
      else if distanceKm < 0 then MinusInfinity
      else NaN)"

text \<open>
  An integer in a template literal is printed in decimal (JavaScript does so for every
  integer of magnitude below \<open>10^21\<close>).
\<close>

fun digits :: "nat \<Rightarrow> string" where
  "digits n =
     (if n < 10 then [''0123456789'' ! n]
      else digits (n div 10) @ [''0123456789'' ! (n mod 10)])"

declare digits.simps [simp del]

definition number_toString :: "int \<Rightarrow> string" where
  "number_toString n = (if n < 0 then ''-'' @ digits (nat (- n)) else digits (nat n))"

text \<open>
  The \<^verbatim>\<open>if\<close> cascade of \<^verbatim>\<open>calculateETA\<close>. Every comparison with \<^verbatim>\<open>NaN\<close> is false
  and \<^verbatim>\<open>Infinity % 60\<close> is \<^verbatim>\<open>NaN\<close>, which gives the texts of the non-finite cases.

  The text is \<open>None\<close> where the model does not determine it: from \<open>2^53\<close> minutes on,
  \<^verbatim>\<open>Math.floor(timeInMinutes / 60)\<close> is computed on doubles and is no longer the
  integer quotient, and from \<open>10^21\<close> on the numbers print in exponent notation. Below
  \<open>2^53\<close> the quotient of the doubles, rounded down, is the integer quotient, and the
  remainder is exact.
\<close>

fun etaText_of :: "js_integer \<Rightarrow> string option" where
  "etaText_of (Integer timeInMinutes) =
     (if timeInMinutes < 1 then Some ''Arriving now''
      else if timeInMinutes = 1 then Some ''1 min''
      else if timeInMinutes < 60 then Some (number_toString timeInMinutes @ '' mins'')
      else if timeInMinutes < 2 ^ 53
      then (let hours = timeInMinutes div 60;
                mins = timeInMinutes mod 60
            in Some (number_toString hours @ ''h '' @ number_toString mins @ ''m''))
      else None)"
| "etaText_of Large = None"
| "etaText_of LargeNegative = Some ''Arriving now''"
| "etaText_of PlusInfinity = Some ''Infinityh NaNm''"
| "etaText_of MinusInfinity = Some ''Arriving now''"
| "etaText_of NaN = Some ''NaNh NaNm''"

record eta_result =
  distance :: real
  eta :: js_integer
  etaText :: "string option"

definition calculateETA :: "coordinate \<Rightarrow> coordinate \<Rightarrow> real \<Rightarrow> eta_result" where
  "calculateETA currentLocation destination averageSpeed =
     (let distanceKm = calculateDistance currentLocation destination;
          timeInMinutes = roundedMinutes distanceKm averageSpeed
      in \<lparr>distance = of_int (round (distanceKm * 100)) / 100,
          eta = timeInMinutes,
          etaText = etaText_of timeInMinutes\<rparr>)"

text \<open>The default argument \<^verbatim>\<open>averageSpeed = 30\<close>.\<close>

definition calculateETA_default :: "coordinate \<Rightarrow> coordinate \<Rightarrow> eta_result" where
  "calculateETA_default currentLocation destination =
     calculateETA currentLocation destination 30"

record stop =
  stop_id :: string
  stopName :: string
  location :: coordinate
  address :: string

text \<open>
  \<^verbatim>\<open>findNearestStop\<close> returns \<^verbatim>\<open>{...nearestStop, distance}\<close>: the fields of the stop
  and the distance rounded to two decimals, here the pair of the stop and that number.
  The argument is \<open>None\<close> when \<^verbatim>\<open>stops\<close> is \<^verbatim>\<open>null\<close> or \<^verbatim>\<open>undefined\<close>.
\<close>

fun nearestLoop :: "coordinate \<Rightarrow> stop list \<Rightarrow> stop \<Rightarrow> real \<Rightarrow> stop \<times> real" where
  "nearestLoop loc [] nearestStop minDistance = (nearestStop, minDistance)"
| "nearestLoop loc (s # rest) nearestStop minDistance =
     (let distanceKm = calculateDistance loc (location s)
      in if distanceKm < minDistance then nearestLoop loc rest s distanceKm
         else nearestLoop loc rest nearestStop minDistance)"

definition findNearestStop :: "coordinate \<Rightarrow> stop list option \<Rightarrow> (stop \<times> real) option" where
  "findNearestStop loc stops =
     (case stops of
        None \<Rightarrow> None
      | Some [] \<Rightarrow> None
      | Some (first # rest) \<Rightarrow>
          (case nearestLoop loc rest first (calculateDistance loc (location first)) of
             (nearestStop, minDistance) \<Rightarrow>
               Some (nearestStop, of_int (round (minDistance * 100)) / 100)))"

section \<open>Approach notifications (\<^verbatim>\<open>notificationUtils\<close>)\<close>

text \<open>
  A bus object of the client, with the fields the notification reads
  (\<^verbatim>\<open>_id\<close>, \<^verbatim>\<open>busNumber\<close>, \<^verbatim>\<open>route.routeName\<close>), and the payload of a
  \<^verbatim>\<open>bus-location-update\<close> event as this module reads it.
\<close>

record tracked_bus =
  tracked_id :: string
  tracked_busNumber :: string
  tracked_routeName :: string

record bus_update =
  upd_busId :: string
  upd_location :: coordinate

record notification =
  title :: string
  body :: string
  tag :: string
  requireInteraction :: bool

text \<open>
  \<^verbatim>\<open>showNotification\<close> creates the browser notification when the permission is granted
  and does nothing otherwise. Of the options of the notification the model keeps the
  body, the tag and \<^verbatim>\<open>requireInteraction\<close>.
\<close>

definition showNotification :: "bool \<Rightarrow> notification \<Rightarrow> notification option" where
  "showNotification granted n = (if granted then Some n else None)"

definition showBusArrivalNotification ::
  "bool \<Rightarrow> tracked_bus \<Rightarrow> stop \<Rightarrow> real \<Rightarrow> int \<Rightarrow> notification option" where
  "showBusArrivalNotification granted bus s distanceKm etaMin =
     showNotification granted
       \<lparr>title = ''Bus '' @ tracked_busNumber bus @ '' Approaching'',
        body = ''Route: '' @ tracked_routeName bus @ [CHR 0x0A] @
               ''Stop: '' @ stopName s @ [CHR 0x0A] @
               (if etaMin < 1 then ''Arriving now!''
                else number_toString etaMin @ '' min away''),
        tag = ''bus-'' @ tracked_id bus @ ''-stop-'' @ stop_id s,
        requireInteraction = (etaMin < 5)\<rparr>"

text \<open>The callback of \<^verbatim>\<open>stops.reduce(..., null)\<close>: the nearest stop so far and its distance.\<close>

definition nearestStep ::
  "coordinate \<Rightarrow> (stop \<times> real) option \<Rightarrow> stop \<Rightarrow> (stop \<times> real) option" where
  "nearestStep loc nearest s =
     (let distanceKm = calculateDistance loc (location s)
      in case nearest of
           None \<Rightarrow> Some (s, distanceKm)
         | Some (n, d) \<Rightarrow> if distanceKm < d then Some (s, distanceKm) else nearest)"

definition checkAndNotifyBusUpdates ::
  "bool \<Rightarrow> tracked_bus list \<Rightarrow> bus_update \<Rightarrow> stop list \<Rightarrow> notification option" where
  "checkAndNotifyBusUpdates granted trackedBuses busUpdate stops =
     (case find (\<lambda>bus. tracked_id bus = upd_busId busUpdate) trackedBuses of
        None \<Rightarrow> None
      | Some trackedBus \<Rightarrow>
          (case foldl (nearestStep (upd_location busUpdate)) None stops of
             None \<Rightarrow> None
           | Some (nearestStop, d) \<Rightarrow>
               if d \<le> 0.5
               then showBusArrivalNotification granted trackedBus nearestStop d
                      (round (d / 30 * 60))
               else None))"

text \<open>
  The listener of \<^verbatim>\<open>bus-location-update\<close> calls \<^verbatim>\<open>checkAndNotifyBusUpdates\<close> once for
  each event, with no state of its own kept between two events: the notifications of a
  stream of events.
\<close>

definition notifyAll ::
  "bool \<Rightarrow> tracked_bus list \<Rightarrow> stop list \<Rightarrow> bus_update list \<Rightarrow> notification option list" where
  "notifyAll granted trackedBuses stops updates =
     map (\<lambda>busUpdate. checkAndNotifyBusUpdates granted trackedBuses busUpdate stops) updates"

section \<open>Trip statistics (\<^verbatim>\<open>routes/buses.js\<close>, \<^verbatim>\<open>models/Bus.js\<close>)\<close>

datatype bus_status = active | inactive | maintenance

text \<open>
  A Number that the route computes from finite operands: finite, or one of the
  non-finite values that a division by zero gives in JavaScript.
\<close>

datatype js_number = Finite real | PosInfinity | NegInfinity | NotANumber

definition js_divide :: "real \<Rightarrow> real \<Rightarrow> js_number" where
  "js_divide x y =
     (if y \<noteq> 0 then Finite (x / y)
      else if 0 < x then PosInfinity
      else if x < 0 then NegInfinity
      else NotANumber)"

text \<open>
  \<^verbatim>\<open>tripStats.lastLocation\<close> is a nested path of the schema
  (\<^verbatim>\<open>lastLocation: { latitude: Number, longitude: Number }\<close>): reading it gives an
  object whether or not a location is stored, and a coordinate that is not stored reads
  as \<^verbatim>\<open>undefined\<close>.
\<close>

record last_location =
  lastLatitude :: "real option"
  lastLongitude :: "real option"

record trip_stats =
  distanceToday :: real
  totalDistance :: real
  tripStartTime :: "int option"
  lastLocation :: last_location

record bus =
  busNumber :: string
  currentLocation :: coordinate
  status :: bus_status
  route :: string
  lastUpdated :: "int option"
  speed :: js_number
  tripStats :: trip_stats

text \<open>
  The body of \<^verbatim>\<open>PATCH /:id/location\<close> between the read and the write of the document.
  The request carries \<^verbatim>\<open>latitude\<close>, \<^verbatim>\<open>longitude\<close> and an optional \<^verbatim>\<open>speed\<close>
  (\<open>None\<close> when the field is absent); \<open>now\<close> is \<^verbatim>\<open>new Date()\<close>.

  Lines 151 to 166. The guard \<^verbatim>\<open>if (currentBus.tripStats.lastLocation)\<close> tests an
  object and is always taken. With both coordinates stored the increment is the inline
  haversine formula; a coordinate that reads as \<^verbatim>\<open>undefined\<close> turns the subtraction,
  and with it the increment, into \<^verbatim>\<open>NaN\<close>.
\<close>

datatype js_distance = Km real | KmNaN

definition distanceIncrement :: "trip_stats \<Rightarrow> real \<Rightarrow> real \<Rightarrow> js_distance" where
  "distanceIncrement stats lat lng =
     (case (lastLatitude (lastLocation stats), lastLongitude (lastLocation stats)) of
        (Some lastLat, Some lastLng) \<Rightarrow>
          (let R = 6371;
               dLat = (lat - lastLat) * pi / 180;
               dLng = (lng - lastLng) * pi / 180;
               a = sin (dLat / 2) * sin (dLat / 2) +
                   cos (lastLat * pi / 180) * cos (lat * pi / 180) *
                   sin (dLng / 2) * sin (dLng / 2);
               c = 2 * atan2 (sqrt a) (sqrt (1 - a))
           in Km (R * c))
      | _ \<Rightarrow> KmNaN)"

text \<open>
  Lines 168 to 175. \<^verbatim>\<open>speed || 0\<close> and \<^verbatim>\<open>!speed\<close> test the truthiness of the field:
  an absent speed and the speed \<open>0\<close> are both falsy. \<^verbatim>\<open>distanceIncrement > 0\<close> is false
  for \<^verbatim>\<open>NaN\<close>. The quotient is a division of JavaScript, taken only where the route
  takes it.
\<close>

definition falsy :: "real option \<Rightarrow> bool" where
  "falsy v = (case v of None \<Rightarrow> True | Some x \<Rightarrow> x = 0)"

definition orZero :: "real option \<Rightarrow> real" where
  "orZero v = (case v of None \<Rightarrow> 0 | Some x \<Rightarrow> if x = 0 then 0 else x)"

definition calculatedSpeed :: "bus \<Rightarrow> real option \<Rightarrow> js_distance \<Rightarrow> int \<Rightarrow> js_number" where
  "calculatedSpeed currentBus spd increment now =
     (let initial = Finite (orZero spd)
      in case increment of
           KmNaN \<Rightarrow> initial
         | Km inc \<Rightarrow>
             if falsy spd \<and> inc > 0
             then (case lastUpdated currentBus of
                     None \<Rightarrow> initial
                   | Some previous \<Rightarrow>
                       (let timeDiffHours = real_of_int (now - previous) / (1000 * 60 * 60)
                        in if timeDiffHours > 0 then js_divide inc timeDiffHours else initial))
             else initial)"

text \<open>
  Lines 177 to 199: the document after \<^verbatim>\<open>findByIdAndUpdate(id, updateData)\<close>; the fields
  that \<^verbatim>\<open>updateData\<close> does not name are kept. The update casts its numbers, and
  \<^verbatim>\<open>NaN\<close> does not cast to a Number: with a \<^verbatim>\<open>NaN\<close> increment (or speed) the update
  throws and nothing is written, which is \<open>None\<close> here.
\<close>

definition locationUpdate :: "bus \<Rightarrow> real \<Rightarrow> real \<Rightarrow> real option \<Rightarrow> int \<Rightarrow> bus option" where
  "locationUpdate currentBus lat lng spd now =
     (let increment = distanceIncrement (tripStats currentBus) lat lng;
          newSpeed = calculatedSpeed currentBus spd increment now
      in case increment of
           KmNaN \<Rightarrow> None
         | Km inc \<Rightarrow>
             if newSpeed = NotANumber then None
             else
               (let stats = (tripStats currentBus)
                      \<lparr>distanceToday := distanceToday (tripStats currentBus) + inc,
                       totalDistance := totalDistance (tripStats currentBus) + inc,
                       lastLocation :=
                         \<lparr>lastLatitude = Some lat, lastLongitude = Some lng\<rparr>\<rparr>;
                    stats' = (if tripStartTime (tripStats currentBus) = None
                              then stats\<lparr>tripStartTime := Some now\<rparr> else stats)
                in Some (currentBus
                     \<lparr>currentLocation := \<lparr>latitude = lat, longitude = lng\<rparr>,
                      lastUpdated := Some now,
                      speed := newSpeed,
                      tripStats := stats'\<rparr>)))"

text \<open>The document after the update of \<^verbatim>\<open>PATCH /:id/reset-distance\<close>.\<close>

definition resetDistance :: "bus \<Rightarrow> int \<Rightarrow> bus" where
  "resetDistance b now =
     b\<lparr>tripStats := (tripStats b)\<lparr>distanceToday := 0, tripStartTime := Some now\<rparr>\<rparr>"

text \<open>
  The collection of buses is a map from the document id.
\<close>

datatype http_error = NotFound

type_synonym bus_collection = "string \<rightharpoonup> bus"

record update_event =
  ev_busId :: string
  ev_location :: coordinate
  ev_speed :: js_number
  ev_timestamp :: "int option"
  ev_tripStats :: trip_stats

text \<open>
  What a request to the location route leaves behind: the collection, the status of the
  answer and the events emitted to the room of the bus.
\<close>

record route_result =
  stored :: bus_collection
  httpStatus :: nat
  emitted :: "update_event list"

text \<open>
  \<^verbatim>\<open>PATCH /:id/location\<close>, in the order of the handler. The route takes two things from
  outside \<^verbatim>\<open>buses.js\<close>, which are parameters here: whether the application holds a
  socket.io server under the setting \<^verbatim>\<open>io\<close>, and which strings mongoose casts to a
  document id (its cast is not part of the repository).
  \<^item> \<^verbatim>\<open>findById\<close> throws for an id that does not cast: the answer is 500.
  \<^item> An unknown bus answers 404.
  \<^item> An update that is refused throws: the answer is 500 and nothing is written.
  \<^item> After the write, \<^verbatim>\<open>req.app.get('io')\<close> is read. With a server registered the
    event is emitted and the answer is 200; without one, \<^verbatim>\<open>io.to\<close> throws on
    \<^verbatim>\<open>undefined\<close>: the answer is 500, nothing is emitted, and the write stays.
\<close>

definition patchLocation ::
  "bool \<Rightarrow> (string \<Rightarrow> bool) \<Rightarrow> bus_collection \<Rightarrow> string \<Rightarrow> real \<Rightarrow> real \<Rightarrow> real option \<Rightarrow> int
     \<Rightarrow> route_result" where
  "patchLocation io castsToId db ident lat lng spd now =
     (if \<not> castsToId ident then \<lparr>stored = db, httpStatus = 500, emitted = []\<rparr>
      else case db ident of
        None \<Rightarrow> \<lparr>stored = db, httpStatus = 404, emitted = []\<rparr>
      | Some currentBus \<Rightarrow>
          (case locationUpdate currentBus lat lng spd now of
             None \<Rightarrow> \<lparr>stored = db, httpStatus = 500, emitted = []\<rparr>
           | Some b \<Rightarrow>
               if io
               then \<lparr>stored = db(ident \<mapsto> b), httpStatus = 200,
                     emitted = [\<lparr>ev_busId = ident,
                                 ev_location = currentLocation b,
                                 ev_speed = speed b,
                                 ev_timestamp = lastUpdated b,
                                 ev_tripStats = tripStats b\<rparr>]\<rparr>
               else \<lparr>stored = db(ident \<mapsto> b), httpStatus = 500, emitted = []\<rparr>))"

text \<open>
  \<^verbatim>\<open>server.js\<close> creates the socket.io server and never stores it in the application
  (there is no \<^verbatim>\<open>app.set('io', io)\<close>): in this repository the setting is absent.
\<close>

definition ioRegistered :: bool where
  "ioRegistered = False"

text \<open>
  \<^verbatim>\<open>PATCH /:id/reset-distance\<close>: an unknown id answers 404 and changes nothing.
\<close>

definition patchResetDistance ::
  "bus_collection \<Rightarrow> string \<Rightarrow> int \<Rightarrow> http_error + (bus_collection \<times> bus)" where
  "patchResetDistance db ident now =
     (case db ident of
        None \<Rightarrow> Inl NotFound
      | Some b \<Rightarrow> Inr (db(ident \<mapsto> resetDistance b now), resetDistance b now))"

text \<open>
  A history of requests on one bus: location samples and daily resets. A refused update
  leaves the document as it was.
\<close>

datatype request = Sample real real "real option" int | Reset int

fun applyRequest :: "bus \<Rightarrow> request \<Rightarrow> bus" where
  "applyRequest b (Sample lat lng spd now) =
     (case locationUpdate b lat lng spd now of None \<Rightarrow> b | Some b' \<Rightarrow> b')"
| "applyRequest b (Reset now) = resetDistance b now"

definition applyRequests :: "bus \<Rightarrow> request list \<Rightarrow> bus" where
  "applyRequests b rs = foldl applyRequest b rs"

fun sampleCoordinate :: "request \<Rightarrow> coordinate" where
  "sampleCoordinate (Sample lat lng spd now) = \<lparr>latitude = lat, longitude = lng\<rparr>"
| "sampleCoordinate (Reset now) = \<lparr>latitude = 0, longitude = 0\<rparr>"

fun isSample :: "request \<Rightarrow> bool" where
  "isSample (Sample lat lng spd now) = True"
| "isSample (Reset now) = False"

text \<open>
  The sum of the spec for a history of samples: the distances between each coordinate
  and the next one, \<open>0\<close> for fewer than two coordinates.
\<close>

fun pairwiseSum :: "coordinate list \<Rightarrow> real" where
  "pairwiseSum (p # q # cs) = calculateDistance p q + pairwiseSum (q # cs)"
| "pairwiseSum cs = 0"

section \<open>Interest registry (\<^verbatim>\<open>server.js\<close>)\<close>

text \<open>
  The registry of the server is the set of rooms of socket.io: for each room name, the
  ids of the sockets in it. The library is a dependency of the repository and its code
  is not part of it.
\<close>

type_synonym rooms = "string \<Rightarrow> string set"

text \<open>
  Modelled from the spec: \<^verbatim>\<open>socket.join(room)\<close> of socket.io, missing from the
  repository. Joining adds the observer to the set of the entity; joining twice has the
  effect of joining once.
\<close>

definition socket_join :: "rooms \<Rightarrow> string \<Rightarrow> string \<Rightarrow> rooms" where
  "socket_join r socket room = r(room := insert socket (r room))"

text \<open>
  Modelled from the spec: \<^verbatim>\<open>socket.leave(room)\<close> of socket.io, missing from the
  repository. Leaving removes the observer from the set of the entity; leaving a
  non-member is a no-op.
\<close>

definition socket_leave :: "rooms \<Rightarrow> string \<Rightarrow> string \<Rightarrow> rooms" where
  "socket_leave r socket room = r(room := r room - {socket})"

text \<open>
  Modelled from the spec: what socket.io does to the rooms when a socket disconnects,
  missing from the repository. The observer is removed from the set of every entity.
\<close>

definition socket_disconnect :: "rooms \<Rightarrow> string \<Rightarrow> rooms" where
  "socket_disconnect r socket = (\<lambda>room. r room - {socket})"

text \<open>
  The handlers of \<^verbatim>\<open>io.on('connection')\<close>: \<^verbatim>\<open>join-bus-tracking\<close> and
  \<^verbatim>\<open>leave-bus-tracking\<close> join and leave the room \<^verbatim>\<open>bus-${busId}\<close>; the handler of
  \<^verbatim>\<open>disconnect\<close> only logs, after the library has left every room of the socket.
\<close>

definition busRoom :: "string \<Rightarrow> string" where
  "busRoom busId = ''bus-'' @ busId"

definition joinBusTracking :: "rooms \<Rightarrow> string \<Rightarrow> string \<Rightarrow> rooms" where
  "joinBusTracking r socket busId = socket_join r socket (busRoom busId)"

definition leaveBusTracking :: "rooms \<Rightarrow> string \<Rightarrow> string \<Rightarrow> rooms" where
  "leaveBusTracking r socket busId = socket_leave r socket (busRoom busId)"

definition disconnect :: "rooms \<Rightarrow> string \<Rightarrow> rooms" where
  "disconnect r socket = socket_disconnect r socket"

definition subscribers :: "rooms \<Rightarrow> string \<Rightarrow> string set" where
  "subscribers r busId = r (busRoom busId)"

section \<open>Example data\<close>

text \<open>
  The origin, the point \<open>km\<close> kilometres to the north of it on the meridian \<open>0\<close>, and
  two stops at the same place.
\<close>

definition origin :: coordinate where
  "origin = \<lparr>latitude = 0, longitude = 0\<rparr>"

definition northOf :: "real \<Rightarrow> coordinate" where
  "northOf km = \<lparr>latitude = km * 180 / (6371 * pi), longitude = 0\<rparr>"

definition stopA :: stop where
  "stopA = \<lparr>stop_id = ''s1'', stopName = ''Railway Station'', location = origin,
            address = ''Station Square''\<rparr>"

definition stopB :: stop where
  "stopB = \<lparr>stop_id = ''s2'', stopName = ''Station Square'', location = origin,
            address = ''Station Square''\<rparr>"

text \<open>A tracked bus and two samples of it: one at the stops, one a kilometre away.\<close>

definition trackedBus1 :: tracked_bus where
  "trackedBus1 = \<lparr>tracked_id = ''b1'', tracked_busNumber = ''OD-02-1234'',
                  tracked_routeName = ''Route 101''\<rparr>"

definition updateAtStop :: bus_update where
  "updateAtStop = \<lparr>upd_busId = ''b1'', upd_location = origin\<rparr>"

definition updateAway :: bus_update where
  "updateAway = \<lparr>upd_busId = ''b1'', upd_location = northOf 1\<rparr>"

text \<open>
  A bus last seen at the origin at time 1000 ms with speed 40, a document id, a
  collection that holds the bus under it, and a cast that accepts the strings of 24
  hexadecimal digits.
\<close>

definition exampleBus :: bus where
  "exampleBus =
     \<lparr>busNumber = ''OD-02-1234'', currentLocation = origin, status = active,
      route = ''route-101'', lastUpdated = Some 1000, speed = Finite 40,
      tripStats = \<lparr>distanceToday = 0, totalDistance = 0, tripStartTime = Some 0,
                   lastLocation = \<lparr>lastLatitude = Some 0, lastLongitude = Some 0\<rparr>\<rparr>\<rparr>"

definition busId :: string where
  "busId = ''64b7f0c2a1d3e4f5a6b7c8d9''"

definition exampleDb :: bus_collection where
  "exampleDb = [busId \<mapsto> exampleBus]"

definition hex24 :: "string \<Rightarrow> bool" where
  "hex24 s = (length s = 24 \<and> set s \<subseteq> set ''0123456789abcdef'')"

text \<open>
  A bus as the creation route stores it, with no trip recorded yet, a collection that
  holds it, a sample \<open>km\<close> kilometres north of the origin, and a registry with no
  subscriber.
\<close>

definition emptyBus :: bus where
  "emptyBus =
     \<lparr>busNumber = ''OD-02-1234'', currentLocation = origin, status = active,
      route = ''route-101'', lastUpdated = Some 0, speed = Finite 0,
      tripStats = \<lparr>distanceToday = 0, totalDistance = 0, tripStartTime = None,
                   lastLocation = \<lparr>lastLatitude = None, lastLongitude = None\<rparr>\<rparr>\<rparr>"

definition freshDb :: bus_collection where
  "freshDb = [busId \<mapsto> emptyBus]"

definition sampleNorth :: "real \<Rightarrow> int \<Rightarrow> request" where
  "sampleNorth km now = Sample (latitude (northOf km)) (longitude (northOf km)) None now"

definition emptyRooms :: rooms where
  "emptyRooms = (\<lambda>room. {})"

section \<open>Geodesy kernel: properties\<close>

lemma atan2_zero_one: "atan2 0 1 = 0"
  by (simp add: atan2_def)

lemma atan2_nonneg: "0 \<le> y \<Longrightarrow> 0 \<le> atan2 y x"
proof -
  assume y: "0 \<le> y"
  have pos: "0 < x \<Longrightarrow> 0 \<le> arctan (y / x)"
    using y by (simp add: zero_le_arctan_iff)
  have neg: "x < 0 \<Longrightarrow> 0 \<le> arctan (y / x) + pi"
    using arctan_lbound [of "y / x"] pi_gt_zero by linarith
  show ?thesis
    using y pos neg by (simp add: atan2_def)
qed

lemma sin_half_sq: "sin (u / 2) * sin (u / 2) = (1 - cos (u::real)) / 2"
  using cos_double_sin [of "u / 2"] by (simp add: power2_eq_square)

text \<open>
  The haversine quantity \<open>a\<close> lies in \<open>[0, 1]\<close> for all real latitudes and longitudes,
  so both square roots of the formula are taken of non-negative numbers.
\<close>

lemma hav_range:
  fixes x y t :: real
  assumes "0 \<le> t" "t \<le> 1"
  shows "0 \<le> sin ((y - x) / 2) * sin ((y - x) / 2) + cos x * cos y * t"
    and "sin ((y - x) / 2) * sin ((y - x) / 2) + cos x * cos y * t \<le> 1"
proof -
  define p where "p = cos x * cos y"
  define q where "q = p * t"
  define s where "s = sin ((y - x) / 2) * sin ((y - x) / 2)"
  define c where "c = cos (x + y)"
  define d where "d = cos (y - x)"
  have sd: "s = (1 - d) / 2" by (simp add: s_def d_def sin_half_sq)
  have d: "-1 \<le> d" "d \<le> 1" by (simp_all add: d_def)
  have c: "-1 \<le> c" "c \<le> 1" by (simp_all add: c_def)
  have sp: "s + p = (1 + c) / 2"
    by (simp add: s_def p_def c_def sin_half_sq cos_diff cos_add field_simps)
  have between: "(0 \<le> q \<and> q \<le> p) \<or> (p \<le> q \<and> q \<le> 0)"
  proof (cases "0 \<le> p")
    case True
    then have "0 \<le> p * t" "0 \<le> p * (1 - t)" using assms by simp_all
    then show ?thesis by (simp add: q_def algebra_simps)
  next
    case False
    then have "p * t \<le> 0" "p * (1 - t) \<le> 0"
      using assms by (simp_all add: mult_nonpos_nonneg)
    then show ?thesis by (simp add: q_def algebra_simps)
  qed
  have lo: "0 \<le> s + q"
    using between sd d sp c by argo
  have hi: "s + q \<le> 1"
    using between sd d sp c by argo
  from lo hi
  show "0 \<le> sin ((y - x) / 2) * sin ((y - x) / 2) + cos x * cos y * t"
    and "sin ((y - x) / 2) * sin ((y - x) / 2) + cos x * cos y * t \<le> 1"
    by (simp_all add: s_def q_def p_def)
qed

lemma sin_sq_range: "0 \<le> sin (u::real) * sin u" "sin (u::real) * sin u \<le> 1"
proof -
  show "0 \<le> sin u * sin u" by simp
  have "(sin u)\<^sup>2 \<le> 1" by (simp add: abs_square_le_1)
  then show "sin u * sin u \<le> 1" by (simp add: power2_eq_square)
qed

lemma calculateDistance_nonneg: "0 \<le> calculateDistance p q"
proof -
  define x where "x = toRadians (latitude p)"
  define y where "y = toRadians (latitude q)"
  define t where "t = sin (toRadians (longitude q - longitude p) / 2) *
                      sin (toRadians (longitude q - longitude p) / 2)"
  define a where "a = sin ((y - x) / 2) * sin ((y - x) / 2) + cos x * cos y * t"
  have dLat: "toRadians (latitude q - latitude p) = y - x"
    by (simp add: x_def y_def toRadians_def field_simps)
  have "0 \<le> a"
    unfolding a_def by (rule hav_range(1)) (simp_all add: t_def sin_sq_range)
  then have "0 \<le> atan2 (sqrt a) (sqrt (1 - a))"
    by (simp add: atan2_nonneg)
  moreover have "calculateDistance p q = 6371 * (2 * atan2 (sqrt a) (sqrt (1 - a)))"
    unfolding calculateDistance_def Let_def dLat a_def t_def x_def y_def
    by (simp add: mult.assoc)
  ultimately show ?thesis by simp
qed

text \<open>The inline formula of the location route is the one of \<open>calculateDistance\<close>.\<close>

lemma distanceIncrement_stored:
  assumes "lastLocation stats = \<lparr>lastLatitude = Some lastLat, lastLongitude = Some lastLng\<rparr>"
  shows "distanceIncrement stats lat lng =
     Km (calculateDistance \<lparr>latitude = lastLat, longitude = lastLng\<rparr>
           \<lparr>latitude = lat, longitude = lng\<rparr>)"
  using assms
  by (simp add: distanceIncrement_def calculateDistance_def toRadians_def Let_def)

lemma distanceIncrement_missing:
  assumes "lastLatitude (lastLocation stats) = None \<or> lastLongitude (lastLocation stats) = None"
  shows "distanceIncrement stats lat lng = KmNaN"
  using assms by (auto simp: distanceIncrement_def split: option.split)

lemma distanceIncrement_nonneg:
  assumes "distanceIncrement stats lat lng = Km inc"
  shows "0 \<le> inc"
proof -
  obtain la lo where stored: "lastLatitude (lastLocation stats) = Some la"
    "lastLongitude (lastLocation stats) = Some lo"
    using assms by (auto simp: distanceIncrement_def split: option.splits)
  then have "lastLocation stats = \<lparr>lastLatitude = Some la, lastLongitude = Some lo\<rparr>"
    by (cases "lastLocation stats") simp
  from distanceIncrement_stored [OF this, of lat lng] assms
  show ?thesis by (simp add: calculateDistance_nonneg)
qed

text \<open>
  Over the reals the distance of a point to itself is 0 and the distance is symmetric.
  The model has no rounding: where the doubles of the code round the haversine quantity
  above 1 (near-antipodal points), \<^verbatim>\<open>Math.sqrt(1 - a)\<close> is \<^verbatim>\<open>NaN\<close> in the code, which
  no real-number statement shows.
\<close>

lemma calculateDistance_same: "calculateDistance a a = 0"
  by (simp add: calculateDistance_def toRadians_def atan2_zero_one)

lemma calculateDistance_sym: "calculateDistance a b = calculateDistance b a"
proof -
  have flipLat: "toRadians (latitude a - latitude b) = - toRadians (latitude b - latitude a)"
    by (simp add: toRadians_def field_simps)
  have flipLon: "toRadians (longitude a - longitude b) = - toRadians (longitude b - longitude a)"
    by (simp add: toRadians_def field_simps)
  show ?thesis
    unfolding calculateDistance_def Let_def flipLat flipLon
    by (simp add: mult.commute)
qed

text \<open>The distance along the meridian, used to evaluate the examples.\<close>

lemma atan2_half_angle:
  assumes "0 \<le> u" "u < pi / 2"
  shows "atan2 (sqrt (sin u * sin u)) (sqrt (1 - sin u * sin u)) = u"
proof -
  have s: "0 \<le> sin u" using assms pi_gt_zero by (intro sin_ge_zero) linarith+
  have c: "0 < cos u" using assms by (intro cos_gt_zero_pi) linarith+
  have "1 - sin u * sin u = cos u * cos u"
    using sin_cos_squared_add [of u] by (simp add: power2_eq_square)
  then have "sqrt (1 - sin u * sin u) = cos u" using c by simp
  moreover have "sqrt (sin u * sin u) = sin u" using s by simp
  moreover have "arctan (sin u / cos u) = u"
    using arctan_tan [of u] assms by (simp add: tan_def)
  ultimately show ?thesis using c by (simp add: atan2_def)
qed

lemma calculateDistance_northOf:
  assumes "0 \<le> km" "km < 6371 * pi"
  shows "calculateDistance origin (northOf km) = km"
proof -
  define u where "u = km / 12742"
  have u: "0 \<le> u" "u < pi / 2" using assms by (simp_all add: u_def)
  have half: "toRadians (km * 180 / (6371 * pi) - 0) / 2 = u"
    by (simp add: toRadians_def u_def)
  have zero: "toRadians (0 - 0) = 0" by (simp add: toRadians_def)
  have "calculateDistance origin (northOf km) =
          6371 * (2 * atan2 (sqrt (sin u * sin u)) (sqrt (1 - sin u * sin u)))"
    unfolding calculateDistance_def origin_def northOf_def Let_def coordinate.simps half zero
    by simp
  also have "\<dots> = 6371 * (2 * u)"
    by (simp only: atan2_half_angle [OF u])
  also have "\<dots> = km" by (simp add: u_def)
  finally show ?thesis .
qed

section \<open>Nearest stop\<close>

lemma nearestLoop_first_min:
  assumes "i < length pre"
    and "\<forall>j<length pre. calculateDistance loc (location (pre ! i)) \<le> calculateDistance loc (location (pre ! j))"
    and "\<forall>j<i. calculateDistance loc (location (pre ! i)) < calculateDistance loc (location (pre ! j))"
  shows "\<exists>k<length (pre @ rest).
           nearestLoop loc rest (pre ! i) (calculateDistance loc (location (pre ! i))) =
             ((pre @ rest) ! k, calculateDistance loc (location ((pre @ rest) ! k))) \<and>
           (\<forall>j<length (pre @ rest). calculateDistance loc (location ((pre @ rest) ! k))
                \<le> calculateDistance loc (location ((pre @ rest) ! j))) \<and>
           (\<forall>j<k. calculateDistance loc (location ((pre @ rest) ! k))
                < calculateDistance loc (location ((pre @ rest) ! j)))"
  using assms
proof (induction rest arbitrary: pre i)
  case Nil
  then show ?case by auto
next
  case (Cons s rest)
  let ?d = "\<lambda>x. calculateDistance loc (location x)"
  let ?pre = "pre @ [s]"
  show ?case
  proof (cases "?d s < ?d (pre ! i)")
    case True
    have i': "length pre < length ?pre" by simp
    have at: "?pre ! length pre = s" by simp
    have all: "\<forall>j<length ?pre. ?d (?pre ! length pre) \<le> ?d (?pre ! j)"
    proof (intro allI impI)
      fix j assume "j < length ?pre"
      then consider "j < length pre" | "j = length pre" by fastforce
      then show "?d (?pre ! length pre) \<le> ?d (?pre ! j)"
      proof cases
        case 1
        then have "?d (pre ! i) \<le> ?d (pre ! j)" using Cons.prems(2) by blast
        then show ?thesis using True 1 by (simp add: nth_append)
      next
        case 2
        then show ?thesis by simp
      qed
    qed
    have before: "\<forall>j<length pre. ?d (?pre ! length pre) < ?d (?pre ! j)"
    proof (intro allI impI)
      fix j assume j: "j < length pre"
      then have "?d (pre ! i) \<le> ?d (pre ! j)" using Cons.prems(2) by blast
      then show "?d (?pre ! length pre) < ?d (?pre ! j)"
        using True j by (simp add: nth_append)
    qed
    from Cons.IH [of "length pre" ?pre, OF i' all before]
    show ?thesis using True by (simp add: Let_def)
  next
    case False
    have i': "i < length ?pre" using Cons.prems(1) by simp
    have at: "?pre ! i = pre ! i" using Cons.prems(1) by (simp add: nth_append)
    have all: "\<forall>j<length ?pre. ?d (?pre ! i) \<le> ?d (?pre ! j)"
    proof (intro allI impI)
      fix j assume "j < length ?pre"
      then consider "j < length pre" | "j = length pre" by fastforce
      then show "?d (?pre ! i) \<le> ?d (?pre ! j)"
      proof cases
        case 1
        then show ?thesis using Cons.prems(2) at by (simp add: nth_append)
      next
        case 2
        then show ?thesis using False at by simp
      qed
    qed
    have before: "\<forall>j<i. ?d (?pre ! i) < ?d (?pre ! j)"
      using Cons.prems(1,3) at by (simp add: nth_append)
    from Cons.IH [of i ?pre, OF i' all before]
    show ?thesis using False at by (simp add: Let_def)
  qed
qed

text \<open>
  C10: \<open>findNearestStop\<close> returns \<^verbatim>\<open>null\<close> for an absent and for an empty list of stops;
  for a non-empty list it returns an element of the list with its distance (rounded to
  two decimals), the element is at the least distance of all, and every element before
  it is strictly farther (the first of several nearest stops is kept).
\<close>

theorem findNearestStop_first_minimum:
  "findNearestStop loc None = None \<and>
   findNearestStop loc (Some []) = None \<and>
   (stops \<noteq> [] \<longrightarrow>
     (\<exists>k<length stops.
        findNearestStop loc (Some stops) =
          Some (stops ! k,
                of_int (round (calculateDistance loc (location (stops ! k)) * 100)) / 100) \<and>
        (\<forall>j<length stops. calculateDistance loc (location (stops ! k))
             \<le> calculateDistance loc (location (stops ! j))) \<and>
        (\<forall>j<k. calculateDistance loc (location (stops ! k))
             < calculateDistance loc (location (stops ! j)))))"
proof (intro conjI impI)
  show "findNearestStop loc None = None" by (simp add: findNearestStop_def)
  show "findNearestStop loc (Some []) = None" by (simp add: findNearestStop_def)
  assume "stops \<noteq> []"
  then obtain first rest where stops: "stops = first # rest" by (cases stops) auto
  have "\<exists>k<length ([first] @ rest).
           nearestLoop loc rest ([first] ! 0) (calculateDistance loc (location ([first] ! 0))) =
             (([first] @ rest) ! k, calculateDistance loc (location (([first] @ rest) ! k))) \<and>
           (\<forall>j<length ([first] @ rest). calculateDistance loc (location (([first] @ rest) ! k))
                \<le> calculateDistance loc (location (([first] @ rest) ! j))) \<and>
           (\<forall>j<k. calculateDistance loc (location (([first] @ rest) ! k))
                < calculateDistance loc (location (([first] @ rest) ! j)))"
    by (rule nearestLoop_first_min) simp_all
  then obtain k where k: "k < length stops"
    and loop: "nearestLoop loc rest first (calculateDistance loc (location first)) =
             (stops ! k, calculateDistance loc (location (stops ! k)))"
    and least: "\<forall>j<length stops. calculateDistance loc (location (stops ! k))
                \<le> calculateDistance loc (location (stops ! j))"
    and firstk: "\<forall>j<k. calculateDistance loc (location (stops ! k))
                < calculateDistance loc (location (stops ! j))"
    unfolding stops by auto
  have "findNearestStop loc (Some stops) =
          Some (stops ! k,
                of_int (round (calculateDistance loc (location (stops ! k)) * 100)) / 100)"
    using loop by (simp add: findNearestStop_def stops)
  with k least firstk
  show "\<exists>k<length stops.
        findNearestStop loc (Some stops) =
          Some (stops ! k,
                of_int (round (calculateDistance loc (location (stops ! k)) * 100)) / 100) \<and>
        (\<forall>j<length stops. calculateDistance loc (location (stops ! k))
             \<le> calculateDistance loc (location (stops ! j))) \<and>
        (\<forall>j<k. calculateDistance loc (location (stops ! k))
             < calculateDistance loc (location (stops ! j)))"
    by blast
qed

theorem findNearestStop_first_minimum_witness:
  "findNearestStop origin (Some [stopA, stopB]) = Some (stopA, 0)"
proof -
  let ?stops = "[stopA, stopB]"
  have "?stops \<noteq> []" by simp
  with findNearestStop_first_minimum [of origin ?stops]
  obtain k where k: "k < length ?stops"
    and res: "findNearestStop origin (Some ?stops) =
          Some (?stops ! k,
                of_int (round (calculateDistance origin (location (?stops ! k)) * 100)) / 100)"
    and firstk: "\<forall>j<k. calculateDistance origin (location (?stops ! k))
             < calculateDistance origin (location (?stops ! j))"
    by blast
  have zero: "calculateDistance origin (location stopA) = 0"
    "calculateDistance origin (location stopB) = 0"
    by (simp_all add: stopA_def stopB_def calculateDistance_same)
  have "k = 0"
  proof (rule ccontr)
    assume "k \<noteq> 0"
    then have "k = 1" using k by simp
    then have "calculateDistance origin (location (?stops ! 1))
             < calculateDistance origin (location (?stops ! 0))"
      using firstk by blast
    then show False using zero by simp
  qed
  then show ?thesis using res zero by simp
qed

section \<open>Arrival times\<close>

lemma roundedMinutes_scenarios:
  "roundedMinutes 7.5 30 = Integer 15" "roundedMinutes 0.2 30 = Integer 0"
  by (simp_all add: roundedMinutes_def round_def)

lemma roundedMinutes_Integer:
  assumes "roundedMinutes distanceKm averageSpeed = Integer n"
  shows "averageSpeed \<noteq> 0" and "n = round (distanceKm / averageSpeed * 60)"
    and "- (2 ^ 53) < n" and "n < 2 ^ 53"
  using assms by (auto simp: roundedMinutes_def Let_def split: if_splits)

text \<open>
  C7: for a speed other than \<open>0\<close> the minutes of \<open>calculateETA\<close> are
  \<open>round (distance / averageSpeed * 60)\<close>; whenever the minutes are a number \<open>n\<close>, the text
  is \<open>Arriving now\<close> for \<open>n < 1\<close>, \<open>1 min\<close> for \<open>n = 1\<close>, \<open>n mins\<close> for \<open>1 < n < 60\<close> and
  \<open>Hh Mm\<close> with \<open>H = n div 60\<close> and \<open>M = n mod 60\<close> from \<open>60\<close> on; a distance of 7.5 km at
  the default speed gives 15 minutes and \<open>15 mins\<close>, a distance of 0.2 km gives 0 minutes
  and \<open>Arriving now\<close>. The minutes are taken below \<open>2^53\<close> in magnitude, where the doubles
  of the code are the integers. At the speed \<open>0\<close> the quotient is not a finite number:
  the minutes are \<^verbatim>\<open>Infinity\<close> for a positive distance, with the text of the last case
  printed from \<^verbatim>\<open>Infinity\<close> and \<^verbatim>\<open>Infinity % 60\<close>, and \<^verbatim>\<open>NaN\<close> for the distance 0.
\<close>

theorem calculateETA_minutes_and_text:
  "(averageSpeed \<noteq> 0 \<and>
    \<bar>round (calculateDistance cur dest / averageSpeed * 60)\<bar> < 2 ^ 53 \<longrightarrow>
      eta (calculateETA cur dest averageSpeed) =
        Integer (round (calculateDistance cur dest / averageSpeed * 60))) \<and>
   (\<forall>n. eta (calculateETA cur dest averageSpeed) = Integer n \<longrightarrow>
      (n < 1 \<longrightarrow> etaText (calculateETA cur dest averageSpeed) = Some ''Arriving now'') \<and>
      (n = 1 \<longrightarrow> etaText (calculateETA cur dest averageSpeed) = Some ''1 min'') \<and>
      (1 < n \<and> n < 60 \<longrightarrow>
         etaText (calculateETA cur dest averageSpeed) = Some (number_toString n @ '' mins'')) \<and>
      (60 \<le> n \<and> n < 2 ^ 53 \<longrightarrow>
         etaText (calculateETA cur dest averageSpeed) =
           Some (number_toString (n div 60) @ ''h '' @ number_toString (n mod 60) @ ''m''))) \<and>
   (calculateDistance cur dest = 7.5 \<longrightarrow>
      eta (calculateETA_default cur dest) = Integer 15 \<and>
      etaText (calculateETA_default cur dest) = Some ''15 mins'') \<and>
   (calculateDistance cur dest = 0.2 \<longrightarrow>
      eta (calculateETA_default cur dest) = Integer 0 \<and>
      etaText (calculateETA_default cur dest) = Some ''Arriving now'') \<and>
   (averageSpeed = 0 \<and> 0 < calculateDistance cur dest \<longrightarrow>
      eta (calculateETA cur dest averageSpeed) = PlusInfinity \<and>
      etaText (calculateETA cur dest averageSpeed) = Some ''Infinityh NaNm'') \<and>
   (averageSpeed = 0 \<and> calculateDistance cur dest = 0 \<longrightarrow>
      eta (calculateETA cur dest averageSpeed) = NaN \<and>
      etaText (calculateETA cur dest averageSpeed) = Some ''NaNh NaNm'')"
proof (intro conjI impI allI)
  assume "averageSpeed \<noteq> 0 \<and>
    \<bar>round (calculateDistance cur dest / averageSpeed * 60)\<bar> < 2 ^ 53"
  then have speed: "averageSpeed \<noteq> 0"
    and small: "\<not> 2 ^ 53 \<le> round (calculateDistance cur dest / averageSpeed * 60)"
      "\<not> round (calculateDistance cur dest / averageSpeed * 60) \<le> - (2 ^ 53)"
    by linarith+
  have "roundedMinutes (calculateDistance cur dest) averageSpeed =
      Integer (round (calculateDistance cur dest / averageSpeed * 60))"
    unfolding roundedMinutes_def Let_def using speed small
    by (simp only: if_True if_False not_False_eq_True simp_thms)
  then show "eta (calculateETA cur dest averageSpeed) =
        Integer (round (calculateDistance cur dest / averageSpeed * 60))"
    by (simp add: calculateETA_def Let_def)
next
  fix n assume "eta (calculateETA cur dest averageSpeed) = Integer n" "n < 1"
  then show "etaText (calculateETA cur dest averageSpeed) = Some ''Arriving now''"
    by (simp add: calculateETA_def Let_def)
next
  fix n assume "eta (calculateETA cur dest averageSpeed) = Integer n" "n = 1"
  then show "etaText (calculateETA cur dest averageSpeed) = Some ''1 min''"
    by (simp add: calculateETA_def Let_def)
next
  fix n assume "eta (calculateETA cur dest averageSpeed) = Integer n" "1 < n \<and> n < 60"
  then show "etaText (calculateETA cur dest averageSpeed) =
      Some (number_toString n @ '' mins'')"
    by (simp add: calculateETA_def Let_def)
next
  fix n assume "eta (calculateETA cur dest averageSpeed) = Integer n" "60 \<le> n \<and> n < 2 ^ 53"
  then show "etaText (calculateETA cur dest averageSpeed) =
           Some (number_toString (n div 60) @ ''h '' @ number_toString (n mod 60) @ ''m'')"
    by (simp add: calculateETA_def Let_def)
next
  assume d: "calculateDistance cur dest = 7.5"
  have t: "number_toString 15 = ''15''" by code_simp
  have "calculateETA_default cur dest =
          \<lparr>distance = of_int (round (7.5 * 100 :: real)) / 100, eta = Integer 15,
           etaText = etaText_of (Integer 15)\<rparr>"
    unfolding calculateETA_default_def calculateETA_def Let_def d roundedMinutes_scenarios ..
  then show "eta (calculateETA_default cur dest) = Integer 15"
    and "etaText (calculateETA_default cur dest) = Some ''15 mins''"
    using t by simp_all
next
  assume d: "calculateDistance cur dest = 0.2"
  have "calculateETA_default cur dest =
          \<lparr>distance = of_int (round (0.2 * 100 :: real)) / 100, eta = Integer 0,
           etaText = etaText_of (Integer 0)\<rparr>"
    unfolding calculateETA_default_def calculateETA_def Let_def d roundedMinutes_scenarios ..
  then show "eta (calculateETA_default cur dest) = Integer 0"
    and "etaText (calculateETA_default cur dest) = Some ''Arriving now''"
    by simp_all
next
  assume "averageSpeed = 0 \<and> 0 < calculateDistance cur dest"
  then show "eta (calculateETA cur dest averageSpeed) = PlusInfinity"
    and "etaText (calculateETA cur dest averageSpeed) = Some ''Infinityh NaNm''"
    by (simp_all add: calculateETA_def roundedMinutes_def Let_def)
next
  assume "averageSpeed = 0 \<and> calculateDistance cur dest = 0"
  then show "eta (calculateETA cur dest averageSpeed) = NaN"
    and "etaText (calculateETA cur dest averageSpeed) = Some ''NaNh NaNm''"
    by (simp_all add: calculateETA_def roundedMinutes_def Let_def)
qed

lemma northOf_scenarios:
  "calculateDistance origin (northOf (15 / 2)) = 15 / 2"
  "calculateDistance origin (northOf (1 / 5)) = 1 / 5"
proof -
  have "(15 / 2 :: real) < 6371 * pi" "(1 / 5 :: real) < 6371 * pi"
    using pi_ge_two by linarith+
  then show "calculateDistance origin (northOf (15 / 2)) = 15 / 2"
    and "calculateDistance origin (northOf (1 / 5)) = 1 / 5"
    by (simp_all add: calculateDistance_northOf)
qed

theorem calculateETA_minutes_and_text_witness:
  "eta (calculateETA origin (northOf (15 / 2)) 30) = Integer 15 \<and>
   etaText (calculateETA origin (northOf (15 / 2)) 30) = Some ''15 mins'' \<and>
   eta (calculateETA_default origin (northOf (15 / 2))) = Integer 15 \<and>
   etaText (calculateETA_default origin (northOf (15 / 2))) = Some ''15 mins'' \<and>
   eta (calculateETA_default origin (northOf (1 / 5))) = Integer 0 \<and>
   etaText (calculateETA_default origin (northOf (1 / 5))) = Some ''Arriving now'' \<and>
   eta (calculateETA origin (northOf (15 / 2)) 1) = Integer 450 \<and>
   etaText (calculateETA origin (northOf (15 / 2)) 1) = Some ''7h 30m'' \<and>
   etaText (calculateETA origin (northOf (15 / 2)) 0) = Some ''Infinityh NaNm'' \<and>
   etaText (calculateETA origin origin 0) = Some ''NaNh NaNm''"
proof -
  note at30 = calculateETA_minutes_and_text
    [where averageSpeed = 30 and cur = origin and dest = "northOf (15 / 2)"]
  note near = calculateETA_minutes_and_text
    [where averageSpeed = 30 and cur = origin and dest = "northOf (1 / 5)"]
  note at1 = calculateETA_minutes_and_text
    [where averageSpeed = 1 and cur = origin and dest = "northOf (15 / 2)"]
  have r30: "round (15 / 2 / 30 * 60 :: real) = 15" by (simp add: round_def)
  have r1: "round (15 / 2 / 1 * 60 :: real) = 450" by (simp add: round_def)
  have ne30: "(30::real) \<noteq> 0 \<and>
      \<bar>round (calculateDistance origin (northOf (15 / 2)) / 30 * 60)\<bar> < 2 ^ 53"
    unfolding northOf_scenarios r30 by simp
  have ne1: "(1::real) \<noteq> 0 \<and>
      \<bar>round (calculateDistance origin (northOf (15 / 2)) / 1 * 60)\<bar> < 2 ^ 53"
    unfolding northOf_scenarios r1 by simp
  have "eta (calculateETA origin (northOf (15 / 2)) 30) =
          Integer (round (calculateDistance origin (northOf (15 / 2)) / 30 * 60))"
    using at30 ne30 by blast
  then have m30: "eta (calculateETA origin (northOf (15 / 2)) 30) = Integer 15"
    unfolding northOf_scenarios r30 .
  have t30: "etaText (calculateETA origin (northOf (15 / 2)) 30) =
      Some (number_toString 15 @ '' mins'')"
    using at30 m30 by simp
  have d30: "eta (calculateETA_default origin (northOf (15 / 2))) = Integer 15 \<and>
      etaText (calculateETA_default origin (northOf (15 / 2))) = Some ''15 mins''"
    using at30 by (simp add: northOf_scenarios)
  have d02: "eta (calculateETA_default origin (northOf (1 / 5))) = Integer 0 \<and>
      etaText (calculateETA_default origin (northOf (1 / 5))) = Some ''Arriving now''"
    using near by (simp add: northOf_scenarios)
  have "eta (calculateETA origin (northOf (15 / 2)) 1) =
          Integer (round (calculateDistance origin (northOf (15 / 2)) / 1 * 60))"
    using at1 ne1 by blast
  then have m1: "eta (calculateETA origin (northOf (15 / 2)) 1) = Integer 450"
    unfolding northOf_scenarios r1 .
  have t1: "etaText (calculateETA origin (northOf (15 / 2)) 1) =
      Some (number_toString (450 div 60) @ ''h '' @ number_toString (450 mod 60) @ ''m'')"
    using at1 m1 by simp
  have s15: "number_toString 15 = ''15''" by code_simp
  have s7: "number_toString (450 div 60) = ''7''" by code_simp
  have s30: "number_toString (450 mod 60) = ''30''" by code_simp
  have inf: "etaText (calculateETA origin (northOf (15 / 2)) 0) = Some ''Infinityh NaNm''"
    using calculateETA_minutes_and_text
      [where averageSpeed = 0 and cur = origin and dest = "northOf (15 / 2)"]
    by (simp add: northOf_scenarios)
  have nan: "etaText (calculateETA origin origin 0) = Some ''NaNh NaNm''"
    using calculateETA_minutes_and_text
      [where averageSpeed = 0 and cur = origin and dest = origin]
    by (simp add: calculateDistance_same)
  show ?thesis
    using m30 t30 d30 d02 m1 t1 inf nan unfolding s15 s7 s30 by simp
qed

section \<open>Approach notifications: properties\<close>

lemma foldl_nearestStep_Some:
  assumes "d = calculateDistance loc (location n)"
  shows "\<exists>n' d'. foldl (nearestStep loc) (Some (n, d)) stops = Some (n', d') \<and>
           d' = calculateDistance loc (location n') \<and>
           (n' = n \<or> n' \<in> set stops) \<and> d' \<le> d \<and>
           (\<forall>s\<in>set stops. d' \<le> calculateDistance loc (location s))"
  using assms
proof (induction stops arbitrary: n d)
  case Nil
  then show ?case by simp
next
  case (Cons s stops)
  show ?case
  proof (cases "calculateDistance loc (location s) < d")
    case True
    have step: "nearestStep loc (Some (n, d)) s = Some (s, calculateDistance loc (location s))"
      using True by (simp add: nearestStep_def)
    from Cons.IH [of "calculateDistance loc (location s)" s]
    obtain n' d' where
      "foldl (nearestStep loc) (Some (s, calculateDistance loc (location s))) stops = Some (n', d')"
      "d' = calculateDistance loc (location n')" "n' = s \<or> n' \<in> set stops"
      "d' \<le> calculateDistance loc (location s)"
      "\<forall>t\<in>set stops. d' \<le> calculateDistance loc (location t)"
      by blast
    then show ?thesis using True step by auto
  next
    case False
    have step: "nearestStep loc (Some (n, d)) s = Some (n, d)"
      using False by (simp add: nearestStep_def)
    from Cons.IH [OF Cons.prems]
    obtain n' d' where
      "foldl (nearestStep loc) (Some (n, d)) stops = Some (n', d')"
      "d' = calculateDistance loc (location n')" "n' = n \<or> n' \<in> set stops"
      "d' \<le> d"
      "\<forall>t\<in>set stops. d' \<le> calculateDistance loc (location t)"
      by blast
    then show ?thesis using False step by auto
  qed
qed

lemma nearestStep_None:
  "nearestStep loc None s = Some (s, calculateDistance loc (location s))"
  by (simp add: nearestStep_def)

lemma nearest_within:
  "(case foldl (nearestStep loc) None stops of None \<Rightarrow> False | Some (n, d) \<Rightarrow> d \<le> r) =
   (\<exists>s\<in>set stops. calculateDistance loc (location s) \<le> r)"
proof (cases stops)
  case Nil
  then show ?thesis by simp
next
  case (Cons s rest)
  from foldl_nearestStep_Some [of "calculateDistance loc (location s)" loc s rest]
  obtain n' d' where res: "foldl (nearestStep loc) (Some (s, calculateDistance loc (location s))) rest = Some (n', d')"
    and d': "d' = calculateDistance loc (location n')"
    and mem: "n' = s \<or> n' \<in> set rest"
    and le: "d' \<le> calculateDistance loc (location s)"
    and least: "\<forall>t\<in>set rest. d' \<le> calculateDistance loc (location t)"
    by blast
  have "(d' \<le> r) = (\<exists>t\<in>set (s # rest). calculateDistance loc (location t) \<le> r)"
  proof
    assume "d' \<le> r"
    then show "\<exists>t\<in>set (s # rest). calculateDistance loc (location t) \<le> r"
      using d' mem by auto
  next
    assume "\<exists>t\<in>set (s # rest). calculateDistance loc (location t) \<le> r"
    then obtain t where "t \<in> set (s # rest)" "calculateDistance loc (location t) \<le> r" by blast
    moreover have "d' \<le> calculateDistance loc (location t)"
      using calculation(1) le least by auto
    ultimately show "d' \<le> r" by linarith
  qed
  then show ?thesis using Cons res by (simp add: nearestStep_None)
qed

lemma checkAndNotify_fires_iff:
  "(checkAndNotifyBusUpdates True trackedBuses busUpdate stops \<noteq> None) =
     ((\<exists>b\<in>set trackedBuses. tracked_id b = upd_busId busUpdate) \<and>
      (\<exists>s\<in>set stops. calculateDistance (upd_location busUpdate) (location s) \<le> 0.5))"
proof (cases "find (\<lambda>b. tracked_id b = upd_busId busUpdate) trackedBuses")
  case None
  then have "checkAndNotifyBusUpdates True trackedBuses busUpdate stops = None"
    by (simp add: checkAndNotifyBusUpdates_def)
  moreover have "\<not> (\<exists>b\<in>set trackedBuses. tracked_id b = upd_busId busUpdate)"
    using None by (simp add: find_None_iff)
  ultimately show ?thesis by simp
next
  case (Some trackedBus)
  then have "find (\<lambda>b. tracked_id b = upd_busId busUpdate) trackedBuses \<noteq> None"
    by simp
  then have ex: "\<exists>b\<in>set trackedBuses. tracked_id b = upd_busId busUpdate"
    unfolding find_None_iff by blast
  have "(checkAndNotifyBusUpdates True trackedBuses busUpdate stops \<noteq> None) =
        (case foldl (nearestStep (upd_location busUpdate)) None stops of
           None \<Rightarrow> False | Some (n, d) \<Rightarrow> d \<le> 0.5)"
  proof (cases "foldl (nearestStep (upd_location busUpdate)) None stops")
    case None
    then show ?thesis using Some by (simp add: checkAndNotifyBusUpdates_def)
  next
    case inner: (Some nd)
    obtain n d where nd: "nd = (n, d)" by (cases nd)
    show ?thesis
      unfolding checkAndNotifyBusUpdates_def Some inner nd
      by (simp add: showBusArrivalNotification_def showNotification_def)
  qed
  also have "\<dots> = (\<exists>s\<in>set stops.
      calculateDistance (upd_location busUpdate) (location s) \<le> 0.5)"
    by (rule nearest_within)
  finally show ?thesis using ex by blast
qed

text \<open>
  C1 (as amended): the notifications are level-triggered. With the permission to notify
  granted, every event of the stream is decided on its own: the notification for the
  \<open>i\<close>-th event fires exactly when its bus is tracked and some stop lies within 0.5 km of
  the position of that event, whatever the events before it were.
\<close>

theorem notification_every_sample_in_radius:
  "length (notifyAll True trackedBuses stops updates) = length updates \<and>
   (\<forall>i<length updates.
      (notifyAll True trackedBuses stops updates ! i \<noteq> None) =
        ((\<exists>b\<in>set trackedBuses. tracked_id b = upd_busId (updates ! i)) \<and>
         (\<exists>s\<in>set stops.
            calculateDistance (upd_location (updates ! i)) (location s) \<le> 0.5)))"
proof (intro conjI allI impI)
  show "length (notifyAll True trackedBuses stops updates) = length updates"
    by (simp add: notifyAll_def)
  fix i assume "i < length updates"
  then have "notifyAll True trackedBuses stops updates ! i =
      checkAndNotifyBusUpdates True trackedBuses (updates ! i) stops"
    by (simp add: notifyAll_def)
  then show "(notifyAll True trackedBuses stops updates ! i \<noteq> None) =
        ((\<exists>b\<in>set trackedBuses. tracked_id b = upd_busId (updates ! i)) \<and>
         (\<exists>s\<in>set stops.
            calculateDistance (upd_location (updates ! i)) (location s) \<le> 0.5))"
    by (simp only: checkAndNotify_fires_iff)
qed

lemma example_distances:
  "calculateDistance (upd_location updateAtStop) (location stopA) = 0"
  "calculateDistance (upd_location updateAway) (location stopA) = 1"
proof -
  show "calculateDistance (upd_location updateAtStop) (location stopA) = 0"
    by (simp add: updateAtStop_def stopA_def calculateDistance_same)
  have "(1::real) < 6371 * pi" using pi_ge_two by linarith
  then have "calculateDistance origin (northOf 1) = 1"
    by (simp add: calculateDistance_northOf)
  then have "calculateDistance (northOf 1) origin = 1"
    using calculateDistance_sym [of "northOf 1" origin] by simp
  then show "calculateDistance (upd_location updateAway) (location stopA) = 1"
    by (simp add: updateAway_def stopA_def)
qed

lemma example_tracked:
  "tracked_id trackedBus1 = ''b1''"
  "upd_busId updateAtStop = ''b1''"
  "upd_busId updateAway = ''b1''"
  by (simp_all add: trackedBus1_def updateAtStop_def updateAway_def)

text \<open>
  C1 (as stated) fails: a bus that stays within the radius of a stop for four events in
  a row fires four notifications, not one.
\<close>

theorem notification_repeats_counterexample:
  "isWithinRadius (upd_location updateAtStop) (location stopA) 0.5 \<and>
   length (notifyAll True [trackedBus1] [stopA]
     [updateAtStop, updateAtStop, updateAtStop, updateAtStop]) = 4 \<and>
   None \<notin> set (notifyAll True [trackedBus1] [stopA]
     [updateAtStop, updateAtStop, updateAtStop, updateAtStop])"
proof (intro conjI)
  show "isWithinRadius (upd_location updateAtStop) (location stopA) 0.5"
    by (simp add: isWithinRadius_def example_distances)
  show "length (notifyAll True [trackedBus1] [stopA]
     [updateAtStop, updateAtStop, updateAtStop, updateAtStop]) = 4"
    by (simp add: notifyAll_def)
  have fires: "checkAndNotifyBusUpdates True [trackedBus1] updateAtStop [stopA] \<noteq> None"
    unfolding checkAndNotify_fires_iff
    by (simp add: example_tracked example_distances)
  then show "None \<notin> set (notifyAll True [trackedBus1] [stopA]
     [updateAtStop, updateAtStop, updateAtStop, updateAtStop])"
    by (auto simp: notifyAll_def)
qed

theorem notification_every_sample_in_radius_witness:
  "notifyAll True [trackedBus1] [stopA] [updateAtStop, updateAway, updateAtStop] ! 0 \<noteq> None \<and>
   notifyAll True [trackedBus1] [stopA] [updateAtStop, updateAway, updateAtStop] ! 1 = None \<and>
   notifyAll True [trackedBus1] [stopA] [updateAtStop, updateAway, updateAtStop] ! 2 \<noteq> None"
proof -
  let ?updates = "[updateAtStop, updateAway, updateAtStop]"
  let ?inside = "\<lambda>i. (\<exists>b\<in>set [trackedBus1]. tracked_id b = upd_busId (?updates ! i)) \<and>
         (\<exists>s\<in>set [stopA].
            calculateDistance (upd_location (?updates ! i)) (location s) \<le> 0.5)"
  note spec = notification_every_sample_in_radius
    [where trackedBuses = "[trackedBus1]" and stops = "[stopA]" and updates = ?updates,
     THEN conjunct2, rule_format]
  have len: "0 < length ?updates" "1 < length ?updates" "2 < length ?updates"
    by simp_all
  have in0: "?inside 0" and in1: "\<not> ?inside 1" and in2: "?inside 2"
    by (simp_all add: example_tracked example_distances)
  from spec [OF len(1)] in0
  have r0: "notifyAll True [trackedBus1] [stopA] ?updates ! 0 \<noteq> None" by blast
  from spec [OF len(2)] in1
  have r1: "notifyAll True [trackedBus1] [stopA] ?updates ! 1 = None" by blast
  from spec [OF len(3)] in2
  have r2: "notifyAll True [trackedBus1] [stopA] ?updates ! 2 \<noteq> None" by blast
  from r0 r1 r2 show ?thesis by blast
qed

section \<open>Trip statistics: speed and reset\<close>

lemma example_increment:
  "distanceIncrement (tripStats exampleBus) (latitude (northOf 1)) (longitude (northOf 1)) = Km 1"
proof -
  have "(1::real) < 6371 * pi" using pi_ge_two by linarith
  then have one: "calculateDistance origin (northOf 1) = 1"
    by (simp add: calculateDistance_northOf)
  have eq: "\<lparr>latitude = latitude (northOf 1), longitude = longitude (northOf 1)\<rparr> = northOf 1"
    by (simp add: northOf_def)
  have "lastLocation (tripStats exampleBus) = \<lparr>lastLatitude = Some 0, lastLongitude = Some 0\<rparr>"
    by (simp add: exampleBus_def)
  then have "distanceIncrement (tripStats exampleBus) (latitude (northOf 1))
        (longitude (northOf 1)) =
      Km (calculateDistance \<lparr>latitude = 0, longitude = 0\<rparr>
        \<lparr>latitude = latitude (northOf 1), longitude = longitude (northOf 1)\<rparr>)"
    by (rule distanceIncrement_stored)
  also have "\<dots> = Km (calculateDistance origin (northOf 1))"
    by (simp only: eq origin_def)
  also have "\<dots> = Km 1" by (simp only: one)
  finally show ?thesis .
qed

lemma example_ids: "hex24 busId" "exampleDb busId = Some exampleBus" "freshDb busId = Some emptyBus"
  by (simp_all add: hex24_def busId_def exampleDb_def freshDb_def)

text \<open>
  The route never divides by zero: the quotient is taken only for a positive elapsed
  time, so the speed it computes is always a finite number.
\<close>

lemma calculatedSpeed_finite: "\<exists>s. calculatedSpeed b spd increment now = Finite s"
  by (cases increment)
    (auto simp: calculatedSpeed_def js_divide_def Let_def split: option.split)

text \<open>An accepted update: what it stores.\<close>

lemma locationUpdate_Some:
  assumes "distanceIncrement (tripStats b) lat lng = Km inc"
  shows "\<exists>b'. locationUpdate b lat lng spd now = Some b' \<and>
           speed b' = calculatedSpeed b spd (Km inc) now \<and>
           totalDistance (tripStats b') = totalDistance (tripStats b) + inc \<and>
           distanceToday (tripStats b') = distanceToday (tripStats b) + inc \<and>
           lastLocation (tripStats b') = \<lparr>lastLatitude = Some lat, lastLongitude = Some lng\<rparr>"
proof -
  obtain s where s: "calculatedSpeed b spd (Km inc) now = Finite s"
    using calculatedSpeed_finite by blast
  show ?thesis
    by (simp add: locationUpdate_def assms s Let_def)
qed

lemma locationUpdate_None:
  assumes "distanceIncrement (tripStats b) lat lng = KmNaN"
  shows "locationUpdate b lat lng spd now = None"
  by (simp add: locationUpdate_def assms Let_def)

text \<open>
  C2 (as amended): a location update that carries no speed, moves the bus by a positive
  increment and arrives with no time elapsed since \<open>lastUpdated\<close> (or with a negative
  elapsed time) stores the finite speed \<open>0\<close>: nothing is divided by zero and the speed
  is not negative, but the previous speed is not kept.
\<close>

theorem speed_without_elapsed_time_is_zero:
  assumes "castsToId ident"
    and "db ident = Some b"
    and "lastUpdated b = Some previous"
    and "distanceIncrement (tripStats b) lat lng = Km inc"
    and "0 < inc"
    and "real_of_int (now - previous) / (1000 * 60 * 60) \<le> 0"
  shows "\<exists>b'. stored (patchLocation io castsToId db ident lat lng None now) ident = Some b' \<and>
           speed b' = Finite 0"
proof -
  have zero: "calculatedSpeed b None (Km inc) now = Finite 0"
    using assms(3,5,6) by (simp add: calculatedSpeed_def falsy_def orZero_def Let_def)
  obtain b' where upd: "locationUpdate b lat lng None now = Some b'"
    and sp: "speed b' = calculatedSpeed b None (Km inc) now"
    using locationUpdate_Some [OF assms(4)] by blast
  have "stored (patchLocation io castsToId db ident lat lng None now) ident = Some b'"
    using assms(1,2) upd by (simp add: patchLocation_def)
  then show ?thesis using sp zero by simp
qed

text \<open>
  C2 (as stated) fails: the bus had the speed 40, the sample lies a kilometre away and
  carries the time of \<open>lastUpdated\<close>; the stored speed is then 0, not 40.
\<close>

theorem speed_not_kept_counterexample:
  "lastUpdated exampleBus = Some 1000 \<and>
   distanceIncrement (tripStats exampleBus) (latitude (northOf 1)) (longitude (northOf 1)) =
     Km 1 \<and>
   real_of_int (1000 - 1000) / (1000 * 60 * 60) \<le> 0 \<and>
   speed exampleBus = Finite 40 \<and>
   map_option speed
     (locationUpdate exampleBus (latitude (northOf 1)) (longitude (northOf 1)) None 1000) =
     Some (Finite 0) \<and>
   map_option speed
     (stored (patchLocation ioRegistered hex24 exampleDb busId
        (latitude (northOf 1)) (longitude (northOf 1)) None 1000) busId) =
     Some (Finite 0)"
proof -
  have zero: "calculatedSpeed exampleBus None (Km 1) 1000 = Finite 0"
    by (simp add: calculatedSpeed_def falsy_def orZero_def exampleBus_def Let_def)
  obtain b' where upd: "locationUpdate exampleBus (latitude (northOf 1))
      (longitude (northOf 1)) None 1000 = Some b'"
    and sp: "speed b' = calculatedSpeed exampleBus None (Km 1) 1000"
    using locationUpdate_Some [OF example_increment] by blast
  have route: "stored (patchLocation ioRegistered hex24 exampleDb busId
        (latitude (northOf 1)) (longitude (northOf 1)) None 1000) busId = Some b'"
    using example_ids(1,2) upd by (simp add: patchLocation_def)
  have "lastUpdated exampleBus = Some 1000" "speed exampleBus = Finite 40"
    by (simp_all add: exampleBus_def)
  then show ?thesis
    using example_increment upd route sp zero by simp
qed

theorem speed_without_elapsed_time_is_zero_witness:
  "\<exists>b'. stored (patchLocation ioRegistered hex24 exampleDb busId
           (latitude (northOf 1)) (longitude (northOf 1)) None 1000) busId = Some b' \<and>
     speed b' = Finite 0"
proof (rule speed_without_elapsed_time_is_zero)
  show "hex24 busId" by (rule example_ids)
  show "exampleDb busId = Some exampleBus" by (rule example_ids)
  show "lastUpdated exampleBus = Some 1000" by (simp add: exampleBus_def)
  show "distanceIncrement (tripStats exampleBus) (latitude (northOf 1))
      (longitude (northOf 1)) = Km 1"
    by (rule example_increment)
  show "(0::real) < 1" by simp
  show "real_of_int (1000 - 1000) / (1000 * 60 * 60) \<le> 0" by simp
qed

text \<open>
  An explicit speed other than \<open>0\<close> is stored as it is, whenever the update is accepted.
\<close>

lemma explicit_nonzero_speed_verbatim:
  assumes "castsToId ident" and "db ident = Some b" and "s \<noteq> 0"
    and "distanceIncrement (tripStats b) lat lng = Km inc"
  shows "\<exists>b'. stored (patchLocation io castsToId db ident lat lng (Some s) now) ident = Some b' \<and>
           speed b' = Finite s"
proof -
  have verbatim: "calculatedSpeed b (Some s) (Km inc) now = Finite s"
    using assms(3) by (simp add: calculatedSpeed_def falsy_def orZero_def Let_def)
  obtain b' where upd: "locationUpdate b lat lng (Some s) now = Some b'"
    and sp: "speed b' = calculatedSpeed b (Some s) (Km inc) now"
    using locationUpdate_Some [OF assms(4)] by blast
  have "stored (patchLocation io castsToId db ident lat lng (Some s) now) ident = Some b'"
    using assms(1,2) upd by (simp add: patchLocation_def)
  then show ?thesis using sp verbatim by simp
qed

text \<open>
  C3, at the explicit speed \<open>0\<close>: the request carries \<^verbatim>\<open>speed: 0\<close>, the sample lies a
  kilometre from the last location and one hour after \<open>lastUpdated\<close>; the speed that is
  stored is 1 km/h, derived from distance and time, not the speed of the request.
\<close>

theorem explicit_zero_speed_is_derived:
  "map_option speed
     (stored (patchLocation ioRegistered hex24 exampleDb busId
        (latitude (northOf 1)) (longitude (northOf 1)) (Some 0) 3601000) busId) =
     Some (Finite 1)"
proof -
  have derived: "calculatedSpeed exampleBus (Some 0) (Km 1) 3601000 = Finite 1"
    by (simp add: calculatedSpeed_def falsy_def orZero_def js_divide_def exampleBus_def Let_def)
  obtain b' where upd: "locationUpdate exampleBus (latitude (northOf 1))
      (longitude (northOf 1)) (Some 0) 3601000 = Some b'"
    and sp: "speed b' = calculatedSpeed exampleBus (Some 0) (Km 1) 3601000"
    using locationUpdate_Some [OF example_increment] by blast
  have "stored (patchLocation ioRegistered hex24 exampleDb busId
        (latitude (northOf 1)) (longitude (northOf 1)) (Some 0) 3601000) busId = Some b'"
    using example_ids(1,2) upd by (simp add: patchLocation_def)
  then show ?thesis using sp derived by simp
qed

text \<open>
  C6: the reset of the daily distance answers 404 for an unknown bus; for a known bus it
  stores a document whose \<open>distanceToday\<close> is 0 and whose \<open>tripStartTime\<close> is the time of
  the reset, and whose \<open>totalDistance\<close>, \<open>lastLocation\<close> and every other field are the
  ones of the document before; no other bus of the collection changes.
\<close>

theorem resetDistance_frame:
  "(db ident = None \<longrightarrow> patchResetDistance db ident now = Inl NotFound) \<and>
   (\<forall>b. db ident = Some b \<longrightarrow>
      (\<exists>b'. patchResetDistance db ident now = Inr (db(ident \<mapsto> b'), b') \<and>
         distanceToday (tripStats b') = 0 \<and>
         tripStartTime (tripStats b') = Some now \<and>
         totalDistance (tripStats b') = totalDistance (tripStats b) \<and>
         lastLocation (tripStats b') = lastLocation (tripStats b) \<and>
         busNumber b' = busNumber b \<and>
         currentLocation b' = currentLocation b \<and>
         status b' = status b \<and>
         route b' = route b \<and>
         lastUpdated b' = lastUpdated b \<and>
         speed b' = speed b))"
  by (simp add: patchResetDistance_def resetDistance_def)

theorem resetDistance_frame_witness:
  "\<exists>b'. patchResetDistance exampleDb busId 5000 = Inr (exampleDb(busId \<mapsto> b'), b') \<and>
     distanceToday (tripStats b') = 0 \<and>
     tripStartTime (tripStats b') = Some 5000 \<and>
     totalDistance (tripStats b') = 0 \<and>
     lastLocation (tripStats b') = \<lparr>lastLatitude = Some 0, lastLongitude = Some 0\<rparr> \<and>
     speed b' = Finite 40 \<and>
     lastUpdated b' = Some 1000"
proof -
  have "exampleDb busId = Some exampleBus" by (rule example_ids)
  with resetDistance_frame [of exampleDb busId 5000]
  obtain b' where "patchResetDistance exampleDb busId 5000 = Inr (exampleDb(busId \<mapsto> b'), b')"
    "distanceToday (tripStats b') = 0" "tripStartTime (tripStats b') = Some 5000"
    "totalDistance (tripStats b') = totalDistance (tripStats exampleBus)"
    "lastLocation (tripStats b') = lastLocation (tripStats exampleBus)"
    "speed b' = speed exampleBus" "lastUpdated b' = lastUpdated exampleBus"
    by blast
  then show ?thesis by (auto simp: exampleBus_def)
qed

section \<open>Trip statistics: distances\<close>

lemma applyRequests_Cons: "applyRequests b (r # rs) = applyRequests (applyRequest b r) rs"
  by (simp add: applyRequests_def)

lemma applyRequests_Nil: "applyRequests b [] = b"
  by (simp add: applyRequests_def)

lemma resetDistance_stats:
  "totalDistance (tripStats (resetDistance b now)) = totalDistance (tripStats b)"
  "distanceToday (tripStats (resetDistance b now)) = 0"
  "lastLocation (tripStats (resetDistance b now)) = lastLocation (tripStats b)"
  by (simp_all add: resetDistance_def)

text \<open>A bus with no stored location keeps its trip statistics, whatever is sent.\<close>

lemma applyRequests_no_location:
  assumes "lastLatitude (lastLocation (tripStats b)) = None \<or>
           lastLongitude (lastLocation (tripStats b)) = None"
  shows "totalDistance (tripStats (applyRequests b rs)) = totalDistance (tripStats b) \<and>
         lastLocation (tripStats (applyRequests b rs)) = lastLocation (tripStats b)"
  using assms
proof (induction rs arbitrary: b)
  case Nil
  then show ?case by (simp add: applyRequests_Nil)
next
  case (Cons r rs)
  show ?case
  proof (cases r)
    case (Sample lat lng spd now)
    have "locationUpdate b lat lng spd now = None"
      using Cons.prems by (intro locationUpdate_None distanceIncrement_missing)
    then have "applyRequest b r = b" by (simp add: Sample)
    then show ?thesis using Cons.IH [OF Cons.prems] by (simp add: applyRequests_Cons)
  next
    case (Reset now)
    have keep: "lastLocation (tripStats (resetDistance b now)) = lastLocation (tripStats b)"
      "totalDistance (tripStats (resetDistance b now)) = totalDistance (tripStats b)"
      by (simp_all add: resetDistance_stats)
    from Cons.IH [of "resetDistance b now"] Cons.prems keep
    show ?thesis by (simp add: applyRequests_Cons Reset)
  qed
qed

text \<open>
  From a stored last location the total after a history grows by the sum of the spec:
  the path runs from the last location through the coordinates of the samples, and
  resets do not enter.
\<close>

lemma applyRequests_total:
  assumes "lastLocation (tripStats b) =
      \<lparr>lastLatitude = Some (latitude c), lastLongitude = Some (longitude c)\<rparr>"
  shows "totalDistance (tripStats (applyRequests b rs)) =
     totalDistance (tripStats b) +
     pairwiseSum (c # map sampleCoordinate (filter isSample rs)) \<and>
   lastLocation (tripStats (applyRequests b rs)) =
     \<lparr>lastLatitude = Some (latitude (last (c # map sampleCoordinate (filter isSample rs)))),
      lastLongitude = Some (longitude (last (c # map sampleCoordinate (filter isSample rs))))\<rparr>"
  using assms
proof (induction rs arbitrary: b c)
  case Nil
  then show ?case by (simp add: applyRequests_Nil)
next
  case (Cons r rs)
  show ?case
  proof (cases r)
    case (Sample lat lng spd now)
    let ?c' = "\<lparr>latitude = lat, longitude = lng\<rparr>"
    have c: "\<lparr>latitude = latitude c, longitude = longitude c\<rparr> = c" by simp
    have inc: "distanceIncrement (tripStats b) lat lng = Km (calculateDistance c ?c')"
      using distanceIncrement_stored [OF Cons.prems, of lat lng] by (simp only: c)
    obtain b' where upd: "locationUpdate b lat lng spd now = Some b'"
      and total: "totalDistance (tripStats b') =
        totalDistance (tripStats b) + calculateDistance c ?c'"
      and loc: "lastLocation (tripStats b') =
        \<lparr>lastLatitude = Some lat, lastLongitude = Some lng\<rparr>"
      using locationUpdate_Some [OF inc] by blast
    have step: "applyRequests b (r # rs) = applyRequests b' rs"
      by (simp add: applyRequests_Cons Sample upd)
    have loc': "lastLocation (tripStats b') =
        \<lparr>lastLatitude = Some (latitude ?c'), lastLongitude = Some (longitude ?c')\<rparr>"
      using loc by simp
    from Cons.IH [OF loc'] total
    show ?thesis unfolding step by (simp add: Sample)
  next
    case (Reset now)
    have step: "applyRequests b (r # rs) = applyRequests (resetDistance b now) rs"
      by (simp add: applyRequests_Cons Reset)
    have "lastLocation (tripStats (resetDistance b now)) =
        \<lparr>lastLatitude = Some (latitude c), lastLongitude = Some (longitude c)\<rparr>"
      using Cons.prems by (simp add: resetDistance_stats)
    from Cons.IH [OF this]
    show ?thesis unfolding step by (simp add: Reset resetDistance_stats)
  qed
qed

text \<open>
  C4, from an empty trip state: the bus has no stored location, and the route reads
  the missing coordinates as \<^verbatim>\<open>undefined\<close>. The first sample is refused (the answer is
  500 and the collection is as before), and so is every later one: after two samples
  a kilometre apart the total distance is still 0 and no location is stored, where the
  sum of the distances between consecutive samples is 1.
\<close>

theorem fresh_bus_total_stays_zero:
  "patchLocation ioRegistered hex24 freshDb busId
      (latitude (northOf 0)) (longitude (northOf 0)) None 1000 =
     \<lparr>stored = freshDb, httpStatus = 500, emitted = []\<rparr> \<and>
   totalDistance (tripStats (applyRequests emptyBus
      [sampleNorth 0 1000, sampleNorth 1 2000])) = 0 \<and>
   lastLocation (tripStats (applyRequests emptyBus
      [sampleNorth 0 1000, sampleNorth 1 2000])) =
     \<lparr>lastLatitude = None, lastLongitude = None\<rparr> \<and>
   pairwiseSum (map sampleCoordinate [sampleNorth 0 1000, sampleNorth 1 2000]) = 1"
proof (intro conjI)
  have missing: "lastLatitude (lastLocation (tripStats emptyBus)) = None \<or>
           lastLongitude (lastLocation (tripStats emptyBus)) = None"
    by (simp add: emptyBus_def)
  have "locationUpdate emptyBus (latitude (northOf 0)) (longitude (northOf 0)) None 1000 = None"
    using missing by (intro locationUpdate_None distanceIncrement_missing)
  then show "patchLocation ioRegistered hex24 freshDb busId
      (latitude (northOf 0)) (longitude (northOf 0)) None 1000 =
     \<lparr>stored = freshDb, httpStatus = 500, emitted = []\<rparr>"
    by (simp add: patchLocation_def example_ids)
  from applyRequests_no_location [OF missing, of "[sampleNorth 0 1000, sampleNorth 1 2000]"]
  show "totalDistance (tripStats (applyRequests emptyBus
      [sampleNorth 0 1000, sampleNorth 1 2000])) = 0"
    and "lastLocation (tripStats (applyRequests emptyBus
      [sampleNorth 0 1000, sampleNorth 1 2000])) =
     \<lparr>lastLatitude = None, lastLongitude = None\<rparr>"
    by (simp_all add: emptyBus_def)
  have "(1::real) < 6371 * pi" using pi_ge_two by linarith
  then have one: "calculateDistance origin (northOf 1) = 1"
    by (simp add: calculateDistance_northOf)
  have start: "northOf 0 = origin" by (simp add: northOf_def origin_def)
  have coords: "map sampleCoordinate [sampleNorth 0 1000, sampleNorth 1 2000] =
      [northOf 0, northOf 1]"
    by (simp add: sampleNorth_def northOf_def)
  show "pairwiseSum (map sampleCoordinate [sampleNorth 0 1000, sampleNorth 1 2000]) = 1"
    unfolding coords start using one by simp
qed

lemma applyRequest_invariant:
  assumes "0 \<le> distanceToday (tripStats b)"
    and "distanceToday (tripStats b) \<le> totalDistance (tripStats b)"
  shows "0 \<le> distanceToday (tripStats (applyRequest b r)) \<and>
         distanceToday (tripStats (applyRequest b r))
           \<le> totalDistance (tripStats (applyRequest b r))"
proof (cases r)
  case (Sample lat lng spd now)
  show ?thesis
  proof (cases "distanceIncrement (tripStats b) lat lng")
    case (Km inc)
    then have "0 \<le> inc" by (rule distanceIncrement_nonneg)
    moreover obtain b' where "locationUpdate b lat lng spd now = Some b'"
      "totalDistance (tripStats b') = totalDistance (tripStats b) + inc"
      "distanceToday (tripStats b') = distanceToday (tripStats b) + inc"
      using locationUpdate_Some [OF Km] by blast
    ultimately show ?thesis using assms by (simp add: Sample)
  next
    case KmNaN
    then have "locationUpdate b lat lng spd now = None" by (rule locationUpdate_None)
    then show ?thesis using assms by (simp add: Sample)
  qed
next
  case (Reset now)
  then show ?thesis using assms by (simp add: resetDistance_stats)
qed

lemma applyRequests_invariant:
  assumes "0 \<le> distanceToday (tripStats b)"
    and "distanceToday (tripStats b) \<le> totalDistance (tripStats b)"
  shows "0 \<le> distanceToday (tripStats (applyRequests b rs)) \<and>
         distanceToday (tripStats (applyRequests b rs))
           \<le> totalDistance (tripStats (applyRequests b rs))"
  using assms
proof (induction rs arbitrary: b)
  case Nil
  then show ?case by (simp add: applyRequests_Nil)
next
  case (Cons r rs)
  from applyRequest_invariant [OF Cons.prems, of r]
  show ?case unfolding applyRequests_Cons by (intro Cons.IH) simp_all
qed

text \<open>
  C5: for a bus that starts with both distances at 0, \<open>distanceToday\<close> is at most
  \<open>totalDistance\<close> after every request of any history of location samples and daily
  resets.
\<close>

theorem distanceToday_le_totalDistance:
  assumes "distanceToday (tripStats b) = 0" and "totalDistance (tripStats b) = 0"
  shows "\<forall>k\<le>length requests.
           distanceToday (tripStats (applyRequests b (take k requests)))
             \<le> totalDistance (tripStats (applyRequests b (take k requests)))"
  using applyRequests_invariant [of b] assms by simp

theorem distanceToday_le_totalDistance_witness:
  "distanceToday (tripStats (applyRequests exampleBus
      [sampleNorth 1 2000, Reset 2500, sampleNorth 0 3000]))
   \<le> totalDistance (tripStats (applyRequests exampleBus
      [sampleNorth 1 2000, Reset 2500, sampleNorth 0 3000]))"
proof -
  let ?requests = "[sampleNorth 1 2000, Reset 2500, sampleNorth 0 3000]"
  have "distanceToday (tripStats exampleBus) = 0" "totalDistance (tripStats exampleBus) = 0"
    by (simp_all add: exampleBus_def)
  from distanceToday_le_totalDistance [OF this, of ?requests, rule_format, of 3]
  show ?thesis by simp
qed

section \<open>Interest registry: properties\<close>

text \<open>
  C8: joining a bus room twice gives the registry of joining once, and the subscribers
  of the bus are then the earlier ones and the observer; leaving a room the observer is
  not in changes nothing; after a disconnect the observer subscribes to no bus.
\<close>

theorem registry_idempotent:
  "joinBusTracking (joinBusTracking r obs e) obs e = joinBusTracking r obs e \<and>
   subscribers (joinBusTracking r obs e) e = insert obs (subscribers r e) \<and>
   (obs \<notin> subscribers r e \<longrightarrow> leaveBusTracking r obs e = r) \<and>
   (\<forall>e'. obs \<notin> subscribers (disconnect r obs) e')"
proof (intro conjI impI allI)
  show "joinBusTracking (joinBusTracking r obs e) obs e = joinBusTracking r obs e"
    by (simp add: joinBusTracking_def socket_join_def)
  show "subscribers (joinBusTracking r obs e) e = insert obs (subscribers r e)"
    by (simp add: joinBusTracking_def socket_join_def subscribers_def)
  show "leaveBusTracking r obs e = r" if "obs \<notin> subscribers r e"
    using that by (simp add: leaveBusTracking_def socket_leave_def subscribers_def)
  show "obs \<notin> subscribers (disconnect r obs) e'" for e'
    by (simp add: disconnect_def socket_disconnect_def subscribers_def)
qed

theorem registry_idempotent_witness:
  "''s2'' \<notin> subscribers (joinBusTracking emptyRooms ''s1'' ''b1'') ''b1'' \<and>
   leaveBusTracking (joinBusTracking emptyRooms ''s1'' ''b1'') ''s2'' ''b1'' =
     joinBusTracking emptyRooms ''s1'' ''b1'' \<and>
   subscribers (joinBusTracking (joinBusTracking emptyRooms ''s1'' ''b1'') ''s1'' ''b1'') ''b1'' =
     {''s1''} \<and>
   ''s1'' \<notin> subscribers (disconnect (joinBusTracking emptyRooms ''s1'' ''b1'') ''s1'') ''b1''"
proof -
  let ?r = "joinBusTracking emptyRooms ''s1'' ''b1''"
  have subs: "subscribers ?r ''b1'' = {''s1''}"
    using registry_idempotent [of emptyRooms "''s1''" "''b1''"]
    by (simp add: subscribers_def emptyRooms_def)
  then have absent: "''s2'' \<notin> subscribers ?r ''b1''" by simp
  have twice: "joinBusTracking ?r ''s1'' ''b1'' = ?r"
    using registry_idempotent [of emptyRooms "''s1''" "''b1''"] by blast
  have left: "leaveBusTracking ?r ''s2'' ''b1'' = ?r"
    using registry_idempotent [of ?r "''s2''" "''b1''"] absent by blast
  have gone: "''s1'' \<notin> subscribers (disconnect ?r ''s1'') ''b1''"
    using registry_idempotent [of ?r "''s1''" "''b1''"] by blast
  show ?thesis using absent left gone subs unfolding twice by blast
qed

end
